theory Spec2Isabelle
  imports Complex_Main
begin

section \<open>The per-vehicle session of \<^verbatim>\<open>crazyflie_server.py\<close>\<close>

text \<open>
  The theory embeds class \<^verbatim>\<open>CrazyflieROS\<close> of
  \<^verbatim>\<open>src/crazyflie/scripts/crazyflie_server.py\<close>.

  \<^item> The fields of the object that the modelled methods read or write form the record
    \<open>session\<close>; every method takes the session and returns a \<open>result\<close>: the
    updated session, the calls it has made on its collaborators (the radio link
    \<^verbatim>\<open>self._cf\<close> and \<^verbatim>\<open>rospy.sleep\<close>) in program order, and the exception that
    left the method, if one did.
  \<^item> A Python float that is only added to, multiplied or passed on is modelled by
    \<open>real\<close>: rounding is outside the model, and so are the non-finite values of
    such a float, on which no operation of the class raises. The one float that
    \<^verbatim>\<open>int()\<close> converts, \<^verbatim>\<open>linear.z\<close> of a command, is a \<open>pyfloat\<close>, which has
    the non-finite values, because \<^verbatim>\<open>int()\<close> raises on them. Python integers are
    \<open>int\<close>.
  \<^item> Calls to the logger and to \<^verbatim>\<open>print\<close> change no field and are left out.
\<close>

subsection \<open>Data\<close>

text \<open>The class constants \<^verbatim>\<open>Disconnected = 0\<close>, \<^verbatim>\<open>Connecting = 1\<close>,
  \<^verbatim>\<open>Connected = 2\<close>.\<close>

datatype lifecycle = Disconnected | Connecting | Connected

text \<open>A Python float with its non-finite values \<^verbatim>\<open>inf\<close>, \<^verbatim>\<open>-inf\<close> and
  \<^verbatim>\<open>nan\<close>.\<close>

datatype pyfloat = Finite real | PosInf | NegInf | NaN

text \<open>\<^verbatim>\<open>math.isfinite\<close>.\<close>

fun isfinite :: "pyfloat \<Rightarrow> bool" where
  "isfinite (Finite v) = True"
| "isfinite PosInf = False"
| "isfinite NegInf = False"
| "isfinite NaN = False"

text \<open>What a call of the modelled methods can raise: \<^verbatim>\<open>ValueError\<close> and
  \<^verbatim>\<open>OverflowError\<close> from \<^verbatim>\<open>int()\<close> on a float that is not finite,
  \<^verbatim>\<open>KeyError\<close> from a read of a name that has no value (\<^verbatim>\<open>rospy.get_param\<close>,
  indexing a dictionary), and the refusal of an identifier by
  \<^verbatim>\<open>_cf.param.set_value\<close>.\<close>

datatype error = ValueError | OverflowError | KeyError string | SetValueError string

text \<open>\<^verbatim>\<open>geometry_msgs/Twist\<close>: two vectors of three floats.\<close>

record twist =
  linear_x :: real
  linear_y :: real
  linear_z :: pyfloat
  angular_x :: real
  angular_y :: real
  angular_z :: real

text \<open>\<^verbatim>\<open>Twist()\<close>: every component is zero.\<close>

definition Twist :: twist where
  "Twist = \<lparr>linear_x = 0, linear_y = 0, linear_z = Finite 0,
            angular_x = 0, angular_y = 0, angular_z = 0\<rparr>"

record session =
  link_uri :: string
  tf_prefix :: string
  roll_trim :: real
  pitch_trim :: real
  enable_logging :: bool
  cmdVel :: twist
  state :: lifecycle
  isEmergency :: bool

text \<open>The calls a method makes on its collaborators:
  \<^verbatim>\<open>_cf.open_link(uri)\<close>, \<^verbatim>\<open>_cf.close_link()\<close>,
  \<^verbatim>\<open>_cf.commander.send_setpoint(roll, pitch, yawrate, thrust)\<close>,
  \<^verbatim>\<open>rospy.sleep(seconds)\<close> and \<^verbatim>\<open>_cf.param.set_value(name, text)\<close>.\<close>

datatype action =
    OpenLink string
  | CloseLink
  | SendSetpoint real real real int
  | Sleep real
  | SetValue string string

text \<open>
  What a method leaves behind: the session, the calls made, and \<open>Some e\<close> when the
  exception \<open>e\<close> left the method (after which it made no further call), \<open>None\<close> when
  it returned.
\<close>

type_synonym result = "session \<times> action list \<times> error option"

text \<open>Statement after statement: the second runs on the session the first left,
  unless an exception left the first.\<close>

definition seq :: "result \<Rightarrow> (session \<Rightarrow> result) \<Rightarrow> result" where
  "seq r f =
     (case r of
        (s', acts, Some e) \<Rightarrow> (s', acts, Some e)
      | (s', acts, None) \<Rightarrow> (case f s' of (s'', acts', x) \<Rightarrow> (s'', acts @ acts', x)))"

text \<open>\<^verbatim>\<open>rospy.sleep(seconds)\<close>.\<close>

definition sleep :: "real \<Rightarrow> session \<Rightarrow> result" where
  "sleep seconds s = (s, [Sleep seconds], None)"

text \<open>\<^verbatim>\<open>__init__\<close>: the fields of a fresh session.\<close>

definition init :: "string \<Rightarrow> string \<Rightarrow> real \<Rightarrow> real \<Rightarrow> bool \<Rightarrow> session" where
  "init uri prefix rtrim ptrim logging =
     \<lparr>link_uri = uri, tf_prefix = prefix, roll_trim = rtrim, pitch_trim = ptrim,
      enable_logging = logging, cmdVel = Twist, state = Disconnected,
      isEmergency = False\<rparr>"

subsection \<open>Command ingest and the emergency latch\<close>

text \<open>Python's \<^verbatim>\<open>int(v)\<close> on a float: a finite float is truncated towards zero,
  \<^verbatim>\<open>nan\<close> raises \<^verbatim>\<open>ValueError\<close>, an infinity raises \<^verbatim>\<open>OverflowError\<close>.\<close>

definition trunc :: "real \<Rightarrow> int" where
  "trunc v = (if 0 \<le> v then \<lfloor>v\<rfloor> else \<lceil>v\<rceil>)"

fun py_int :: "pyfloat \<Rightarrow> error + int" where
  "py_int (Finite v) = Inr (trunc v)"
| "py_int PosInf = Inl OverflowError"
| "py_int NegInf = Inl OverflowError"
| "py_int NaN = Inl ValueError"

text \<open>
  \<^verbatim>\<open>
  def _send_setpoint(self):
      roll = self._cmdVel.linear.y + self.roll_trim
      pitch = self._cmdVel.linear.x + self.pitch_trim
      yawrate = self._cmdVel.angular.z
      thrust = min(max(0, int(self._cmdVel.linear.z)), 60000)
      self._cf.commander.send_setpoint(roll, pitch, yawrate, thrust)
  \<close>
  The method changes no field. When \<^verbatim>\<open>int()\<close> raises, the exception leaves the
  method before the call on the link is made.
\<close>

definition send_setpoint :: "session \<Rightarrow> result" where
  "send_setpoint s =
     (let roll = linear_y (cmdVel s) + roll_trim s;
          pitch = linear_x (cmdVel s) + pitch_trim s;
          yawrate = angular_z (cmdVel s)
      in case py_int (linear_z (cmdVel s)) of
           Inl e \<Rightarrow> (s, [], Some e)
         | Inr i \<Rightarrow>
             (let thrust = min (max 0 i) 60000
              in (s, [SendSetpoint roll pitch yawrate thrust], None)))"

text \<open>
  \<^verbatim>\<open>
  def _cmdVelChanged(self, data):
      self._cmdVel = data
      if not self._isEmergency:
          self._send_setpoint()
  \<close>
\<close>

definition cmdVelChanged :: "twist \<Rightarrow> session \<Rightarrow> result" where
  "cmdVelChanged data s =
     (let s' = s\<lparr>cmdVel := data\<rparr>
      in if \<not> isEmergency s' then send_setpoint s' else (s', [], None))"

text \<open>
  \<^verbatim>\<open>
  def _emergency(self, req):
      self._isEmergency = True
      return EmptyResponse()
  \<close>
\<close>

definition emergency :: "session \<Rightarrow> result" where
  "emergency s = (s\<lparr>isEmergency := True\<rparr>, [], None)"

text \<open>The clamp of the specification: \<open>clamp v lo hi\<close> is \<open>v\<close> limited to
  the interval from \<open>lo\<close> to \<open>hi\<close>.\<close>

definition clamp :: "int \<Rightarrow> int \<Rightarrow> int \<Rightarrow> int" where
  "clamp v lo hi = (if v < lo then lo else if hi < v then hi else v)"

subsection \<open>Connection state machine\<close>

text \<open>
  \<^verbatim>\<open>
  def _try_to_connect(self):
      self._state = CrazyflieROS.Connecting
      self._cf.open_link(self.link_uri)
  \<close>
\<close>

definition try_to_connect :: "session \<Rightarrow> result" where
  "try_to_connect s = (s\<lparr>state := Connecting\<rparr>, [OpenLink (link_uri s)], None)"

text \<open>
  The callbacks registered on the link in \<^verbatim>\<open>__init__\<close>. Each assigns
  \<^verbatim>\<open>self._state\<close> without reading it; \<^verbatim>\<open>_link_quality_updated\<close> has an empty
  body. The arguments \<^verbatim>\<open>link_uri\<close> and \<^verbatim>\<open>msg\<close> are only logged. Of
  \<^verbatim>\<open>_connected\<close> the assignment to \<^verbatim>\<open>self._state\<close> is modelled. The
  registration of the telemetry blocks and the seeding of the parameters that follow
  it (\<^verbatim>\<open>set_value\<close> or \<^verbatim>\<open>request_param_update\<close> for every parameter of the
  device) touch no field of \<open>session\<close>; these calls depend on the device's table
  of contents and on the store and are not in the list of calls of the model.
\<close>

definition connected :: "session \<Rightarrow> result" where
  "connected s = (s\<lparr>state := Connected\<rparr>, [], None)"

definition connection_failed :: "session \<Rightarrow> result" where
  "connection_failed s = (s\<lparr>state := Disconnected\<rparr>, [], None)"

definition connection_lost :: "session \<Rightarrow> result" where
  "connection_lost s = (s\<lparr>state := Disconnected\<rparr>, [], None)"

definition disconnected :: "session \<Rightarrow> result" where
  "disconnected s = (s\<lparr>state := Disconnected\<rparr>, [], None)"

definition link_quality_updated :: "real \<Rightarrow> session \<Rightarrow> result" where
  "link_quality_updated percentage s = (s, [], None)"

subsection \<open>Setpoint watchdog\<close>

text \<open>
  The body of one pass of the loop of \<^verbatim>\<open>_update\<close>, after its two exit tests;
  \<open>n\<close> is the value of \<^verbatim>\<open>self._subCmdVel.get_num_connections()\<close>.
  \<^verbatim>\<open>
  if self._state == CrazyflieROS.Disconnected:
      self._try_to_connect()
  elif self._state == CrazyflieROS.Connected:
      if self._subCmdVel.get_num_connections() > 0:
          self._send_setpoint()
      else:
          self._cmdVel = Twist()
          self._send_setpoint()
      rospy.sleep(0.2)
  else:
      rospy.sleep(0.5)
  \<close>
\<close>

definition update_body :: "int \<Rightarrow> session \<Rightarrow> result" where
  "update_body n s =
     (if state s = Disconnected then try_to_connect s
      else if state s = Connected then
        seq (if n > 0 then send_setpoint s
             else send_setpoint (s\<lparr>cmdVel := Twist\<rparr>))
            (sleep 0.2)
      else sleep 0.5 s)"

text \<open>
  What follows the loop of \<^verbatim>\<open>_update\<close>:
  \<^verbatim>\<open>
  for i in range(0, 100):
      self._cf.commander.send_setpoint(0, 0, 0, 0)
      rospy.sleep(0.01)
  rospy.sleep(0.1)
  self._cf.close_link()
  \<close>
\<close>

fun zero_setpoints :: "nat list \<Rightarrow> action list" where
  "zero_setpoints [] = []"
| "zero_setpoints (i # is) = SendSetpoint 0 0 0 0 # Sleep 0.01 # zero_setpoints is"

definition shutdown_sequence :: "action list" where
  "shutdown_sequence = zero_setpoints [0..<100] @ [Sleep 0.1, CloseLink]"

text \<open>
  What the session meets while the watchdog runs. \<open>Tick sh n\<close> is one arrival of
  the watchdog thread at the head of its loop, where \<^verbatim>\<open>rospy.is_shutdown()\<close>
  returns \<open>sh\<close> and \<^verbatim>\<open>get_num_connections()\<close>, if read, returns \<open>n\<close>. The other
  events are the callbacks that other threads run on the same object; the model
  interleaves them with whole passes of the loop.
\<close>

datatype callback =
    CbConnected
  | CbConnectionFailed
  | CbConnectionLost
  | CbDisconnected
  | CbLinkQualityUpdated real
  | CbCmdVel twist
  | CbEmergency

datatype event = Tick bool int | Callback callback

fun dispatch :: "callback \<Rightarrow> session \<Rightarrow> result" where
  "dispatch CbConnected s = connected s"
| "dispatch CbConnectionFailed s = connection_failed s"
| "dispatch CbConnectionLost s = connection_lost s"
| "dispatch CbDisconnected s = disconnected s"
| "dispatch (CbLinkQualityUpdated q) s = link_quality_updated q s"
| "dispatch (CbCmdVel data) s = cmdVelChanged data s"
| "dispatch CbEmergency s = emergency s"

text \<open>
  \<^verbatim>\<open>
  def _update(self):
      while not rospy.is_shutdown():
          if self._isEmergency:
              break
          ...
  \<close>
  \<open>update es s\<close> runs the watchdog thread against the events \<open>es\<close>. The result is
  \<open>Some (s', trace, None)\<close> when the loop is left and the method returns: \<open>s'\<close> is
  the session at that moment and \<open>trace\<close> all calls made up to the return. It is
  \<open>Some (s', trace, Some e)\<close> when the exception \<open>e\<close> leaves a pass of the loop: the
  method has no handler, so the thread ends there, without the statements that follow
  the loop. It is \<open>None\<close> when the events end while the loop is still running. An
  exception that leaves a callback goes to the thread that called the callback, not to
  the watchdog.
\<close>

fun update :: "event list \<Rightarrow> session \<Rightarrow> result option" where
  "update [] s = None"
| "update (Tick sh n # es) s =
     (if sh then Some (s, shutdown_sequence, None)
      else if isEmergency s then Some (s, shutdown_sequence, None)
      else (case update_body n s of
              (s', acts, Some e) \<Rightarrow> Some (s', acts, Some e)
            | (s', acts, None) \<Rightarrow>
                (case update es s' of
                   None \<Rightarrow> None
                 | Some (s'', trace, x) \<Rightarrow> Some (s'', acts @ trace, x))))"
| "update (Callback c # es) s =
     (case dispatch c s of (s', acts, x) \<Rightarrow>
        (case update es s' of
           None \<Rightarrow> None
         | Some (s'', trace, y) \<Rightarrow> Some (s'', acts @ trace, y)))"

text \<open>One event seen as a step of the session: a pass of the loop that is not
  an exit runs the body, an exit runs the shutdown sequence.\<close>

fun step :: "event \<Rightarrow> session \<Rightarrow> result" where
  "step (Tick sh n) s =
     (if sh \<or> isEmergency s then (s, shutdown_sequence, None) else update_body n s)"
| "step (Callback c) s = dispatch c s"

text \<open>The transition table of the specification (section 4.2), as the set of
  changes of state it allows: \<open>table_4_2 a e b\<close> when event \<open>e\<close> may move the
  state from \<open>a\<close> to \<open>b\<close>.\<close>

fun table_4_2 :: "lifecycle \<Rightarrow> event \<Rightarrow> lifecycle \<Rightarrow> bool" where
  "table_4_2 Disconnected (Tick sh n) Connecting = True"
| "table_4_2 Connecting (Callback CbConnected) Connected = True"
| "table_4_2 Connecting (Callback CbConnectionFailed) Disconnected = True"
| "table_4_2 Connected (Callback CbConnectionLost) Disconnected = True"
| "table_4_2 Connected (Callback CbDisconnected) Disconnected = True"
| "table_4_2 a e b = False"

text \<open>The shutdown sequence as the specification words it: the zero-setpoints
  at one fixed interval, one more such interval, then the link is closed.\<close>

definition spec_shutdown_sequence :: "nat \<Rightarrow> real \<Rightarrow> action list" where
  "spec_shutdown_sequence count interval =
     concat (replicate count [SendSetpoint 0 0 0 0, Sleep interval])
       @ [Sleep interval, CloseLink]"

subsection \<open>Parameter synchronisation\<close>

datatype response = UpdateParamsResponse

text \<open>\<^verbatim>\<open>s.replace(old, new)\<close> for one-character \<^verbatim>\<open>old\<close> and \<^verbatim>\<open>new\<close>: every
  occurrence is replaced.\<close>

definition str_replace :: "char \<Rightarrow> char \<Rightarrow> string \<Rightarrow> string" where
  "str_replace old new s = map (\<lambda>c. if c = old then new else c) s"

text \<open>
  The external parameter store is a map from the names handed to
  \<^verbatim>\<open>rospy.set_param\<close> and \<^verbatim>\<open>rospy.get_param\<close> to values of any type \<open>'v\<close>.
  \<^verbatim>\<open>
  def _param_callback(self, name, value):
      ros_param = "{}/{}".format(self.tf_prefix, name.replace(".", "/"))
      rospy.set_param(ros_param, value)
  \<close>
\<close>

definition param_callback ::
  "session \<Rightarrow> string \<Rightarrow> 'v \<Rightarrow> (string \<rightharpoonup> 'v) \<Rightarrow> (string \<rightharpoonup> 'v)" where
  "param_callback s name val store =
     (let ros_param = tf_prefix s @ ''/'' @ str_replace CHR ''.'' CHR ''/'' name
      in store(ros_param \<mapsto> val))"

text \<open>
  \<^verbatim>\<open>
  def _update_params(self, req):
      for param in req.params:
          ros_param = "/{}/{}".format(self.tf_prefix, param)
          cf_param = param.replace("/", ".")
          #if rospy.has_param(ros_param):
          self._cf.param.set_value(cf_param, str(rospy.get_param(ros_param)))
      return UpdateParamsResponse()
  \<close>
  Two things of the collaborators are parameters of the model: \<open>str_of\<close> is
  Python's \<^verbatim>\<open>str\<close> on the values of the store, and \<open>refused\<close> tells for which
  identifiers \<^verbatim>\<open>set_value\<close> raises. \<^verbatim>\<open>rospy.get_param\<close> raises \<^verbatim>\<open>KeyError\<close>
  for a name without a value. The method has no handler, so the first exception
  ends the loop and the method. The result is the list of \<^verbatim>\<open>set_value\<close> calls
  completed, and the response or the exception.
\<close>

definition ros_param_of :: "session \<Rightarrow> string \<Rightarrow> string" where
  "ros_param_of s param = ''/'' @ tf_prefix s @ ''/'' @ param"

definition cf_param_of :: "string \<Rightarrow> string" where
  "cf_param_of param = str_replace CHR ''/'' CHR ''.'' param"

fun update_params ::
  "(string \<Rightarrow> bool) \<Rightarrow> ('v \<Rightarrow> string) \<Rightarrow> session \<Rightarrow> (string \<rightharpoonup> 'v) \<Rightarrow> string list
     \<Rightarrow> action list \<times> (error + response)" where
  "update_params refused str_of s store [] = ([], Inr UpdateParamsResponse)"
| "update_params refused str_of s store (param # params) =
     (let ros_param = ros_param_of s param;
          cf_param = cf_param_of param
      in case store ros_param of
           None \<Rightarrow> ([], Inl (KeyError ros_param))
         | Some v \<Rightarrow>
             if refused cf_param then ([], Inl (SetValueError cf_param))
             else (case update_params refused str_of s store params of
                     (acts, r) \<Rightarrow> (SetValue cf_param (str_of v) # acts, r)))"

text \<open>Whether the push of one entry goes through, and the call it makes.\<close>

definition entry_ok :: "(string \<Rightarrow> bool) \<Rightarrow> session \<Rightarrow> (string \<rightharpoonup> 'v) \<Rightarrow> string \<Rightarrow> bool" where
  "entry_ok refused s store param =
     (store (ros_param_of s param) \<noteq> None \<and> \<not> refused (cf_param_of param))"

definition push_of :: "('v \<Rightarrow> string) \<Rightarrow> session \<Rightarrow> (string \<rightharpoonup> 'v) \<Rightarrow> string \<Rightarrow> action" where
  "push_of str_of s store param =
     (case store (ros_param_of s param) of
        Some v \<Rightarrow> SetValue (cf_param_of param) (str_of v)
      | None \<Rightarrow> SetValue (cf_param_of param) [])"

text \<open>The pushes the specification describes (section 4.5): every entry is
  pushed on its own, whatever happens to the others.\<close>

definition spec_independent_pushes ::
  "(string \<Rightarrow> bool) \<Rightarrow> ('v \<Rightarrow> string) \<Rightarrow> session \<Rightarrow> (string \<rightharpoonup> 'v) \<Rightarrow> string list
     \<Rightarrow> action list" where
  "spec_independent_pushes refused str_of s store params =
     map (push_of str_of s store) (filter (entry_ok refused s store) params)"

subsection \<open>Telemetry\<close>

text \<open>\<^verbatim>\<open>math.radians(v)\<close>.\<close>

definition radians :: "real \<Rightarrow> real" where
  "radians v = v * (pi / 180)"

text \<open>The fields of \<^verbatim>\<open>sensor_msgs/Imu\<close> that \<^verbatim>\<open>_log_data_imu\<close> assigns; the
  others keep the defaults of \<^verbatim>\<open>Imu()\<close>. The stamp is the value of
  \<^verbatim>\<open>rospy.Time.now()\<close>, of any type \<open>'t\<close>.\<close>

record 't imu =
  stamp :: 't
  frame_id :: string
  orientation_covariance_0 :: real
  angular_velocity_x :: real
  angular_velocity_y :: real
  angular_velocity_z :: real
  linear_acceleration_x :: real
  linear_acceleration_y :: real
  linear_acceleration_z :: real

text \<open>\<^verbatim>\<open>data[key]\<close> on a dictionary.\<close>

definition getitem :: "(string \<rightharpoonup> 'a) \<Rightarrow> string \<Rightarrow> error + 'a" where
  "getitem d k = (case d k of None \<Rightarrow> Inl (KeyError k) | Some v \<Rightarrow> Inr v)"

definition bind :: "error + 'a \<Rightarrow> ('a \<Rightarrow> error + 'b) \<Rightarrow> error + 'b" where
  "bind r f = (case r of Inl e \<Rightarrow> Inl e | Inr v \<Rightarrow> f v)"

text \<open>
  \<^verbatim>\<open>
  def _log_data_imu(self, timestamp, data, logconf):
      msg = Imu()
      msg.header.stamp = rospy.Time.now()
      msg.header.frame_id = self.tf_prefix + "/base_link"
      msg.orientation_covariance[0] = -1 # orientation not supported
      # measured in deg/s; need to convert to rad/s
      msg.angular_velocity.x = math.radians(data["gyro.x"])
      msg.angular_velocity.y = math.radians(data["gyro.y"])
      msg.angular_velocity.z = math.radians(data["gyro.z"])
      # measured in mG; need to convert to m/s^2
      msg.linear_acceleration.x = data["acc.x"] * 9.81
      msg.linear_acceleration.y = data["acc.y"] * 9.81
      msg.linear_acceleration.z = data["acc.z"] * 9.81
      self._pubImu.publish(msg)
  \<close>
  The result is the message published, or the exception of the first key that
  \<^verbatim>\<open>data\<close> lacks. The arguments \<^verbatim>\<open>timestamp\<close> and \<^verbatim>\<open>logconf\<close> are not read.
\<close>

definition log_data_imu :: "session \<Rightarrow> 't \<Rightarrow> (string \<rightharpoonup> real) \<Rightarrow> error + 't imu" where
  "log_data_imu s now data =
     bind (getitem data ''gyro.x'') (\<lambda>gx.
     bind (getitem data ''gyro.y'') (\<lambda>gy.
     bind (getitem data ''gyro.z'') (\<lambda>gz.
     bind (getitem data ''acc.x'') (\<lambda>ax.
     bind (getitem data ''acc.y'') (\<lambda>ay.
     bind (getitem data ''acc.z'') (\<lambda>az.
       Inr \<lparr>stamp = now, frame_id = tf_prefix s @ ''/base_link'',
            orientation_covariance_0 = - 1,
            angular_velocity_x = radians gx,
            angular_velocity_y = radians gy,
            angular_velocity_z = radians gz,
            linear_acceleration_x = ax * 9.81,
            linear_acceleration_y = ay * 9.81,
            linear_acceleration_z = az * 9.81\<rparr>))))))"

text \<open>The conversion of an accelerometer reading that the comment of the source
  asks for: from thousandths of the standard gravity to metres per second squared.\<close>

definition mG_to_ms2 :: "real \<Rightarrow> real" where
  "mG_to_ms2 v = v / 1000 * 9.81"

section \<open>Properties\<close>

subsection \<open>Auxiliary facts\<close>

lemma thrust_is_clamped_floor:
  "min (max 0 (trunc v)) 60000 = clamp \<lfloor>v\<rfloor> 0 60000"
proof (cases "0 \<le> v")
  case True
  then show ?thesis by (simp add: trunc_def clamp_def)
next
  case False
  then have neg: "v < 0" by simp
  then have "\<lfloor>v\<rfloor> < 0" by linarith
  moreover from neg have "\<lceil>v\<rceil> \<le> 0" by (simp add: ceiling_le_zero)
  ultimately show ?thesis using False by (simp add: trunc_def clamp_def)
qed

lemma send_setpoint_finite:
  "linear_z (cmdVel s) = Finite v \<Longrightarrow>
     send_setpoint s =
       (s, [SendSetpoint (linear_y (cmdVel s) + roll_trim s) (linear_x (cmdVel s) + pitch_trim s)
              (angular_z (cmdVel s)) (min (max 0 (trunc v)) 60000)], None)"
  by (simp add: send_setpoint_def)

lemma send_setpoint_not_finite:
  "\<not> isfinite (linear_z (cmdVel s)) \<Longrightarrow>
     send_setpoint s =
       (s, [], Some (if linear_z (cmdVel s) = NaN then ValueError else OverflowError))"
  by (cases "linear_z (cmdVel s)") (simp_all add: send_setpoint_def)

lemma send_setpoint_session: "fst (send_setpoint s) = s"
  by (cases "linear_z (cmdVel s)") (simp_all add: send_setpoint_def)

lemma send_setpoint_no_close: "CloseLink \<notin> set (fst (snd (send_setpoint s)))"
  by (cases "linear_z (cmdVel s)") (simp_all add: send_setpoint_def)

lemma zero_setpoints_replicate:
  "zero_setpoints xs = concat (replicate (length xs) [SendSetpoint 0 0 0 0, Sleep 0.01])"
  by (induction xs) simp_all

lemma shutdown_sequence_explicit:
  "shutdown_sequence =
     concat (replicate 100 [SendSetpoint 0 0 0 0, Sleep 0.01]) @ [Sleep 0.1, CloseLink]"
  by (simp add: shutdown_sequence_def zero_setpoints_replicate)

lemma update_body_no_close: "CloseLink \<notin> set (fst (snd (update_body n s)))"
proof -
  have "CloseLink \<notin> set (fst (snd (seq (send_setpoint t) (sleep 0.2))))" for t
    by (cases "linear_z (cmdVel t)") (simp_all add: seq_def sleep_def send_setpoint_def)
  then show ?thesis
    by (simp add: update_body_def try_to_connect_def sleep_def)
qed

lemma dispatch_no_close: "CloseLink \<notin> set (fst (snd (dispatch c s)))"
  using send_setpoint_no_close
  by (cases c)
     (simp_all add: connected_def connection_failed_def connection_lost_def disconnected_def
        link_quality_updated_def cmdVelChanged_def emergency_def Let_def)

lemma dispatch_keeps_latch: "isEmergency s \<Longrightarrow> isEmergency (fst (dispatch c s))"
  by (cases c)
     (simp_all add: connected_def connection_failed_def connection_lost_def disconnected_def
        link_quality_updated_def cmdVelChanged_def emergency_def Let_def)

lemma update_body_state:
  "state (fst (update_body n s)) = (if state s = Disconnected then Connecting else state s)"
proof -
  have "state (fst (seq (send_setpoint t) (sleep 0.2))) = state t" for t
    by (cases "linear_z (cmdVel t)") (simp_all add: seq_def sleep_def send_setpoint_def)
  then show ?thesis
    by (simp add: update_body_def try_to_connect_def sleep_def)
qed

lemma update_returned_trace:
  "update es s = Some (s', trace, None) \<Longrightarrow>
     \<exists>pre. trace = pre @ shutdown_sequence \<and> CloseLink \<notin> set pre"
proof (induction es arbitrary: s s' trace)
  case Nil
  then show ?case by simp
next
  case (Cons e es)
  show ?case
  proof (cases e)
    case (Tick sh n)
    show ?thesis
    proof (cases "sh \<or> isEmergency s")
      case True
      with Cons.prems Tick have "trace = [] @ shutdown_sequence" by (auto split: if_splits)
      then show ?thesis by (metis empty_iff list.set(1))
    next
      case False
      obtain s1 acts x where b: "update_body n s = (s1, acts, x)"
        by (cases "update_body n s")
      with Cons.prems Tick False obtain tr where
        u: "update es s1 = Some (s', tr, None)" and t: "trace = acts @ tr"
        by (auto split: option.splits)
      from Cons.IH [OF u] obtain pre where
        p: "tr = pre @ shutdown_sequence" "CloseLink \<notin> set pre" by blast
      from update_body_no_close [of n s] b have "CloseLink \<notin> set acts" by simp
      with p t have "trace = (acts @ pre) @ shutdown_sequence \<and> CloseLink \<notin> set (acts @ pre)"
        by simp
      then show ?thesis by blast
    qed
  next
    case (Callback c)
    obtain s1 acts x where b: "dispatch c s = (s1, acts, x)" by (cases "dispatch c s")
    with Cons.prems Callback obtain tr where
      u: "update es s1 = Some (s', tr, None)" and t: "trace = acts @ tr"
      by (auto split: option.splits)
    from Cons.IH [OF u] obtain pre where
      p: "tr = pre @ shutdown_sequence" "CloseLink \<notin> set pre" by blast
    from dispatch_no_close [of c s] b have "CloseLink \<notin> set acts" by simp
    with p t have "trace = (acts @ pre) @ shutdown_sequence \<and> CloseLink \<notin> set (acts @ pre)"
      by simp
    then show ?thesis by blast
  qed
qed

text \<open>A stored command with a finite vertical component stays so, and no pass of
  the loop raises on it.\<close>

lemma update_body_finite:
  assumes "isfinite (linear_z (cmdVel s))"
  shows "snd (snd (update_body n s)) = None \<and> isfinite (linear_z (cmdVel (fst (update_body n s))))
         \<and> isEmergency (fst (update_body n s)) = isEmergency s"
proof -
  from assms obtain v where v: "linear_z (cmdVel s) = Finite v"
    by (cases "linear_z (cmdVel s)") simp_all
  have z: "linear_z (cmdVel (s\<lparr>cmdVel := Twist\<rparr>)) = Finite 0" by (simp add: Twist_def)
  have t: "isfinite (linear_z Twist)" by (simp add: Twist_def)
  show ?thesis
    using assms t
    by (simp add: update_body_def try_to_connect_def sleep_def seq_def
          send_setpoint_finite [OF v] send_setpoint_finite [OF z])
qed

lemma dispatch_finite:
  assumes "isfinite (linear_z (cmdVel s))"
    and "\<forall>d. c = CbCmdVel d \<longrightarrow> isfinite (linear_z d)"
  shows "isfinite (linear_z (cmdVel (fst (dispatch c s))))"
  using assms
  by (cases c)
     (simp_all add: connected_def connection_failed_def connection_lost_def disconnected_def
        link_quality_updated_def cmdVelChanged_def emergency_def Let_def send_setpoint_session)

lemma update_ends:
  assumes "isfinite (linear_z (cmdVel s))"
    and "\<forall>d. Callback (CbCmdVel d) \<in> set es \<longrightarrow> isfinite (linear_z d)"
    and "Tick True n \<in> set es \<or> (isEmergency s \<and> Tick sh n \<in> set es)"
  shows "\<exists>s' trace. update es s = Some (s', trace, None)"
  using assms
proof (induction es arbitrary: s)
  case Nil
  then show ?case by simp
next
  case (Cons e es)
  show ?case
  proof (cases e)
    case (Tick sh' m)
    show ?thesis
    proof (cases "sh' \<or> isEmergency s")
      case True
      with Tick show ?thesis by auto
    next
      case False
      with Tick Cons.prems(3) have mem: "Tick True n \<in> set es \<or> (isEmergency s \<and> Tick sh n \<in> set es)"
        by auto
      obtain s1 acts x where b: "update_body m s = (s1, acts, x)" by (cases "update_body m s")
      from update_body_finite [OF Cons.prems(1), of m] b
      have x: "x = None" and f: "isfinite (linear_z (cmdVel s1))" and l: "isEmergency s1 = isEmergency s"
        by simp_all
      from mem l have mem1: "Tick True n \<in> set es \<or> (isEmergency s1 \<and> Tick sh n \<in> set es)" by simp
      from Cons.prems(2) have c: "\<forall>d. Callback (CbCmdVel d) \<in> set es \<longrightarrow> isfinite (linear_z d)"
        by simp
      from Cons.IH [OF f c mem1] obtain s' trace where "update es s1 = Some (s', trace, None)"
        by blast
      with Tick False b x show ?thesis by simp
    qed
  next
    case (Callback c)
    with Cons.prems(3) have mem: "Tick True n \<in> set es \<or> (isEmergency s \<and> Tick sh n \<in> set es)"
      by auto
    obtain s1 acts x where b: "dispatch c s = (s1, acts, x)" by (cases "dispatch c s")
    from Cons.prems(2) Callback have cf: "\<forall>d. c = CbCmdVel d \<longrightarrow> isfinite (linear_z d)"
      by simp
    from dispatch_finite [OF Cons.prems(1) cf] b have f: "isfinite (linear_z (cmdVel s1))"
      by simp
    from dispatch_keeps_latch [of s c] b have "isEmergency s \<Longrightarrow> isEmergency s1" by simp
    with mem have mem1: "Tick True n \<in> set es \<or> (isEmergency s1 \<and> Tick sh n \<in> set es)" by blast
    from Cons.prems(2) have c: "\<forall>d. Callback (CbCmdVel d) \<in> set es \<longrightarrow> isfinite (linear_z d)"
      by simp
    from Cons.IH [OF f c mem1] obtain s' trace where "update es s1 = Some (s', trace, None)"
      by blast
    with Callback b show ?thesis by simp
  qed
qed

lemma str_replace_inverse:
  "b \<notin> set xs \<Longrightarrow> str_replace b a (str_replace a b xs) = xs"
  by (induction xs) (auto simp add: str_replace_def)

lemma str_replace_absent: "a \<notin> set xs \<Longrightarrow> str_replace a b xs = xs"
  by (induction xs) (auto simp add: str_replace_def)

lemma str_replace_append:
  "str_replace a b (xs @ ys) = str_replace a b xs @ str_replace a b ys"
  by (simp add: str_replace_def)

lemma str_replace_Cons:
  "str_replace a b (x # xs) = (if x = a then b else x) # str_replace a b xs"
  by (simp add: str_replace_def)

lemma update_params_takeWhile:
  "fst (update_params refused str_of s store ps) =
     map (push_of str_of s store) (takeWhile (entry_ok refused s store) ps)"
  by (induction ps)
     (auto simp add: Let_def entry_ok_def push_of_def split: option.splits prod.splits)

lemma update_params_outcome:
  "snd (update_params refused str_of s store ps) =
     (case dropWhile (entry_ok refused s store) ps of
        [] \<Rightarrow> Inr UpdateParamsResponse
      | p # rest \<Rightarrow>
          (if store (ros_param_of s p) = None then Inl (KeyError (ros_param_of s p))
           else Inl (SetValueError (cf_param_of p))))"
  by (induction ps)
     (auto simp add: Let_def entry_ok_def split: option.splits prod.splits)

lemma update_params_all_ok:
  assumes "list_all (entry_ok refused s store) ps"
  shows "update_params refused str_of s store ps =
           (map (push_of str_of s store) ps, Inr UpdateParamsResponse)"
proof -
  from assms have all: "\<forall>p \<in> set ps. entry_ok refused s store p" by (simp add: list_all_iff)
  then have tw: "takeWhile (entry_ok refused s store) ps = ps" by simp
  from all have dw: "dropWhile (entry_ok refused s store) ps = []" by simp
  have f: "fst (update_params refused str_of s store ps) = map (push_of str_of s store) ps"
    unfolding update_params_takeWhile tw by simp
  have g: "snd (update_params refused str_of s store ps) = Inr UpdateParamsResponse"
    unfolding update_params_outcome dw by simp
  from f g show ?thesis by (simp add: prod_eq_iff)
qed

lemma update_params_pushes_stringified:
  "a \<in> set (fst (update_params refused str_of s store ps)) \<Longrightarrow>
     \<exists>q v. a = SetValue (cf_param_of q) (str_of v) \<and> q \<in> set ps
          \<and> store (ros_param_of s q) = Some v"
proof (induction ps)
  case Nil
  then show ?case by simp
next
  case (Cons p ps)
  show ?case
  proof (cases "store (ros_param_of s p)")
    case None
    with Cons.prems show ?thesis by (simp add: Let_def)
  next
    case (Some v)
    show ?thesis
    proof (cases "refused (cf_param_of p)")
      case True
      with Some Cons.prems show ?thesis by (simp add: Let_def)
    next
      case False
      with Some Cons.prems have
        "a = SetValue (cf_param_of p) (str_of v)
         \<or> a \<in> set (fst (update_params refused str_of s store ps))"
        by (auto simp add: Let_def split: prod.splits)
      then show ?thesis
      proof
        assume "a = SetValue (cf_param_of p) (str_of v)"
        with Some show ?thesis by auto
      next
        assume "a \<in> set (fst (update_params refused str_of s store ps))"
        from Cons.IH [OF this] show ?thesis by auto
      qed
    qed
  qed
qed

lemma update_params_append_missing:
  "list_all (entry_ok refused s store) pre \<Longrightarrow> store (ros_param_of s p) = None \<Longrightarrow>
     update_params refused str_of s store (pre @ p # post) =
       (map (push_of str_of s store) pre, Inl (KeyError (ros_param_of s p)))"
  by (induction pre) (auto simp add: Let_def entry_ok_def push_of_def)

lemma update_params_missing_raises:
  "p \<in> set ps \<Longrightarrow> store (ros_param_of s p) = None \<Longrightarrow>
     \<exists>e. snd (update_params refused str_of s store ps) = Inl e"
  by (induction ps) (auto simp add: Let_def split: option.splits prod.splits)

subsection \<open>Command ingest under the emergency latch\<close>

text \<open>
  C1. Once the emergency latch is set, a command that arrives causes no setpoint send,
  raises nothing, and leaves the latch set (as every other callback does). The stored
  command is not kept, however: \<^verbatim>\<open>_cmdVelChanged\<close> assigns \<^verbatim>\<open>self._cmdVel\<close> before it
  tests the latch, so after the call the stored command is the incoming one, and no
  other field of the session has changed.
\<close>

theorem emergency_command_no_send:
  "isEmergency s \<Longrightarrow>
     cmdVelChanged d s = (s\<lparr>cmdVel := d\<rparr>, [], None)
     \<and> isEmergency (fst (cmdVelChanged d s))
     \<and> isEmergency (fst (dispatch c s))"
  using dispatch_keeps_latch [of s c] by (simp add: cmdVelChanged_def)

theorem emergency_command_no_send_witness:
  "isEmergency (fst (emergency (init ''radio://0/80/250K'' ''cf'' 0 0 False)))
   \<and> cmdVelChanged (Twist\<lparr>linear_z := Finite 30000\<rparr>)
        (fst (emergency (init ''radio://0/80/250K'' ''cf'' 0 0 False)))
      = ((init ''radio://0/80/250K'' ''cf'' 0 0 False)
           \<lparr>cmdVel := Twist\<lparr>linear_z := Finite 30000\<rparr>, isEmergency := True\<rparr>, [], None)"
  using emergency_command_no_send
    [of "fst (emergency (init ''radio://0/80/250K'' ''cf'' 0 0 False))"
        "Twist\<lparr>linear_z := Finite 30000\<rparr>" CbEmergency]
  by (simp add: emergency_def init_def)

text \<open>The stored command does change: with the latch set by the emergency
  request on a fresh session, a command with vertical component 30000 replaces the
  all-zero command stored before.\<close>

theorem emergency_command_counterexample:
  "isEmergency (fst (emergency (init ''radio://0/80/250K'' ''cf'' 0 0 False)))
   \<and> cmdVel (fst (cmdVelChanged (Twist\<lparr>linear_z := Finite 30000\<rparr>)
               (fst (emergency (init ''radio://0/80/250K'' ''cf'' 0 0 False)))))
      \<noteq> cmdVel (fst (emergency (init ''radio://0/80/250K'' ''cf'' 0 0 False)))"
  by (simp add: emergency_def init_def cmdVelChanged_def Twist_def)

subsection \<open>The shutdown sequence\<close>

text \<open>
  C2. An arrival of the watchdog at the head of its loop that finds shutdown requested,
  or the emergency latch set, ends \<^verbatim>\<open>_update\<close> with exactly the shutdown sequence
  and nothing else: 100 times the setpoint (0, 0, 0, 0) followed by a pause of 0.01 s
  each, then one pause of 0.1 s, then \<^verbatim>\<open>close_link\<close>; the method then returns. The
  sequence is a constant: it reads nothing from the device or the session. The last
  pause is 0.1 s, ten times the interval between the setpoints, not one more interval
  of 0.01 s. Whenever \<^verbatim>\<open>_update\<close> returns, its calls end with this sequence and the
  link is not closed before it. The method does return when the events hold an
  arrival that finds shutdown requested, or the latch is set and there is an arrival
  at all, provided no pass of the loop raises, which is so when the stored command
  and every command that arrives have a finite vertical component. Callbacks that
  other threads run during the sequence are not part of the trace.
\<close>

theorem watchdog_shutdown_sequence:
  "update (Tick True n # es) s = Some (s, shutdown_sequence, None)
   \<and> (isEmergency s \<longrightarrow> update (Tick sh n # es) s = Some (s, shutdown_sequence, None))
   \<and> shutdown_sequence =
        concat (replicate 100 [SendSetpoint 0 0 0 0, Sleep 0.01]) @ [Sleep 0.1, CloseLink]
   \<and> (update es s = Some (s', trace, None) \<longrightarrow>
        (\<exists>pre. trace = pre @ shutdown_sequence \<and> CloseLink \<notin> set pre))
   \<and> (isfinite (linear_z (cmdVel s))
        \<and> (\<forall>d. Callback (CbCmdVel d) \<in> set es \<longrightarrow> isfinite (linear_z d))
        \<and> (Tick True n \<in> set es \<or> (isEmergency s \<and> Tick sh n \<in> set es)) \<longrightarrow>
        (\<exists>s'' pre. update es s = Some (s'', pre @ shutdown_sequence, None)
            \<and> CloseLink \<notin> set pre))"
proof -
  have a: "update (Tick True n # es) s = Some (s, shutdown_sequence, None)" by simp
  have b: "isEmergency s \<longrightarrow> update (Tick sh n # es) s = Some (s, shutdown_sequence, None)"
    by simp
  have d: "update es s = Some (s', trace, None) \<longrightarrow>
        (\<exists>pre. trace = pre @ shutdown_sequence \<and> CloseLink \<notin> set pre)"
    using update_returned_trace [of es s s' trace] by blast
  have e: "isfinite (linear_z (cmdVel s))
        \<and> (\<forall>d. Callback (CbCmdVel d) \<in> set es \<longrightarrow> isfinite (linear_z d))
        \<and> (Tick True n \<in> set es \<or> (isEmergency s \<and> Tick sh n \<in> set es)) \<longrightarrow>
        (\<exists>s'' pre. update es s = Some (s'', pre @ shutdown_sequence, None)
            \<and> CloseLink \<notin> set pre)"
  proof (intro impI, elim conjE)
    assume f: "isfinite (linear_z (cmdVel s))"
      and c: "\<forall>d. Callback (CbCmdVel d) \<in> set es \<longrightarrow> isfinite (linear_z d)"
      and m: "Tick True n \<in> set es \<or> (isEmergency s \<and> Tick sh n \<in> set es)"
    from update_ends [OF f c m] obtain s'' tr where u: "update es s = Some (s'', tr, None)"
      by blast
    from update_returned_trace [OF u] u
    show "\<exists>s'' pre. update es s = Some (s'', pre @ shutdown_sequence, None) \<and> CloseLink \<notin> set pre"
      by blast
  qed
  from a b shutdown_sequence_explicit d e show ?thesis by blast
qed

theorem watchdog_shutdown_sequence_witness:
  "isEmergency ((init ''radio://0/80/250K'' ''cf'' 0 0 False)\<lparr>isEmergency := True\<rparr>)
   \<and> isfinite (linear_z (cmdVel ((init ''radio://0/80/250K'' ''cf'' 0 0 False)\<lparr>isEmergency := True\<rparr>)))
   \<and> Tick False 0 \<in> set [Tick False 0]
   \<and> update [Tick False 0] ((init ''radio://0/80/250K'' ''cf'' 0 0 False)\<lparr>isEmergency := True\<rparr>)
       = Some ((init ''radio://0/80/250K'' ''cf'' 0 0 False)\<lparr>isEmergency := True\<rparr>,
           concat (replicate 100 [SendSetpoint 0 0 0 0, Sleep 0.01]) @ [Sleep 0.1, CloseLink],
           None)
   \<and> (\<exists>s'' pre.
         update [Tick False 0] ((init ''radio://0/80/250K'' ''cf'' 0 0 False)\<lparr>isEmergency := True\<rparr>)
           = Some (s'', pre @ shutdown_sequence, None)
         \<and> CloseLink \<notin> set pre)"
proof -
  have f: "isfinite (linear_z (cmdVel ((init ''radio://0/80/250K'' ''cf'' 0 0 False)\<lparr>isEmergency := True\<rparr>)))"
    by (simp add: init_def Twist_def)
  have run: "update [Tick False 0] ((init ''radio://0/80/250K'' ''cf'' 0 0 False)\<lparr>isEmergency := True\<rparr>)
       = Some ((init ''radio://0/80/250K'' ''cf'' 0 0 False)\<lparr>isEmergency := True\<rparr>,
           shutdown_sequence, None)"
    by simp
  from f run
    watchdog_shutdown_sequence
      [of 0 "[Tick False 0]" "(init ''radio://0/80/250K'' ''cf'' 0 0 False)\<lparr>isEmergency := True\<rparr>"
          False "(init ''radio://0/80/250K'' ''cf'' 0 0 False)\<lparr>isEmergency := True\<rparr>"
          shutdown_sequence]
  show ?thesis by simp
qed

text \<open>The sequence of the source against the sequence with one extra interval of
  0.01 s before the link is closed: they differ in the last pause.\<close>

theorem watchdog_shutdown_sequence_counterexample:
  "update [Tick True 0] (init ''radio://0/80/250K'' ''cf'' 0 0 False)
     = Some (init ''radio://0/80/250K'' ''cf'' 0 0 False, shutdown_sequence, None)
   \<and> shutdown_sequence \<noteq> spec_shutdown_sequence 100 0.01
   \<and> shutdown_sequence = concat (replicate 100 [SendSetpoint 0 0 0 0, Sleep 0.01]) @ [Sleep 0.1, CloseLink]"
  by (simp add: shutdown_sequence_explicit spec_shutdown_sequence_def)

subsection \<open>Lifecycle transitions\<close>

text \<open>
  C3. The state after an event is what the handler of the event assigns, whatever the
  state before. A pass of the watchdog loop changes the state only from Disconnected,
  to Connecting, with a request to open the link as its only call, and only when
  neither shutdown is requested nor the latch is set; the connected event sets
  Connected; the connection-failed, connection-lost and disconnected events set
  Disconnected; the link-quality update, a command and the emergency request leave
  the state as it is. Every row of the table of section 4.2 is a transition of the
  code (for the tick, outside shutdown and emergency). The handlers do not test the
  state they are called in, so transitions outside the table exist as well.
\<close>

theorem lifecycle_transitions:
  "state (fst (step (Tick sh n) s)) =
     (if \<not> sh \<and> \<not> isEmergency s \<and> state s = Disconnected then Connecting else state s)
   \<and> (\<not> sh \<and> \<not> isEmergency s \<and> state s = Disconnected \<longrightarrow>
        snd (step (Tick sh n) s) = ([OpenLink (link_uri s)], None))
   \<and> state (fst (step (Callback CbConnected) s)) = Connected
   \<and> state (fst (step (Callback CbConnectionFailed) s)) = Disconnected
   \<and> state (fst (step (Callback CbConnectionLost) s)) = Disconnected
   \<and> state (fst (step (Callback CbDisconnected) s)) = Disconnected
   \<and> state (fst (step (Callback (CbLinkQualityUpdated q)) s)) = state s
   \<and> state (fst (step (Callback (CbCmdVel d)) s)) = state s
   \<and> state (fst (step (Callback CbEmergency) s)) = state s
   \<and> (table_4_2 a e b \<and> state s = a \<and> \<not> isEmergency s \<and> (\<forall>m. e \<noteq> Tick True m) \<longrightarrow>
        state (fst (step e s)) = b)"
proof -
  have tick: "state (fst (step (Tick sh n) s)) =
     (if \<not> sh \<and> \<not> isEmergency s \<and> state s = Disconnected then Connecting else state s)"
    by (simp add: update_body_state)
  have opn: "\<not> sh \<and> \<not> isEmergency s \<and> state s = Disconnected \<longrightarrow>
        snd (step (Tick sh n) s) = ([OpenLink (link_uri s)], None)"
    by (simp add: update_body_def try_to_connect_def)
  have cbs: "state (fst (step (Callback CbConnected) s)) = Connected"
    "state (fst (step (Callback CbConnectionFailed) s)) = Disconnected"
    "state (fst (step (Callback CbConnectionLost) s)) = Disconnected"
    "state (fst (step (Callback CbDisconnected) s)) = Disconnected"
    "state (fst (step (Callback (CbLinkQualityUpdated q)) s)) = state s"
    "state (fst (step (Callback (CbCmdVel d)) s)) = state s"
    "state (fst (step (Callback CbEmergency) s)) = state s"
    by (simp_all add: connected_def connection_failed_def connection_lost_def
          disconnected_def link_quality_updated_def cmdVelChanged_def emergency_def Let_def
          send_setpoint_session)
  have tab: "table_4_2 a e b \<and> state s = a \<and> \<not> isEmergency s \<and> (\<forall>m. e \<noteq> Tick True m) \<longrightarrow>
        state (fst (step e s)) = b"
  proof (intro impI, elim conjE)
    assume t: "table_4_2 a e b" and a: "state s = a" and em: "\<not> isEmergency s"
      and sh: "\<forall>m. e \<noteq> Tick True m"
    from t a em sh show "state (fst (step e s)) = b"
      by (induction a e b rule: table_4_2.induct)
         (simp_all add: update_body_state connected_def connection_failed_def
            connection_lost_def disconnected_def)
  qed
  from tick opn cbs tab show ?thesis by blast
qed

theorem lifecycle_transitions_witness:
  "table_4_2 Disconnected (Tick False 0) Connecting
   \<and> step (Tick False 0) (init ''radio://0/80/250K'' ''cf'' 0 0 False)
      = ((init ''radio://0/80/250K'' ''cf'' 0 0 False)\<lparr>state := Connecting\<rparr>,
         [OpenLink ''radio://0/80/250K''], None)
   \<and> state (fst (step (Tick False 0) (init ''radio://0/80/250K'' ''cf'' 0 0 False))) = Connecting"
  using lifecycle_transitions
    [of False 0 "init ''radio://0/80/250K'' ''cf'' 0 0 False" 0 Twist
        Disconnected "Tick False 0" Connecting]
  by (simp add: init_def update_body_def try_to_connect_def)

text \<open>A transition outside the table, reached from the initial state: the first
  pass of the loop moves a fresh session to Connecting, and the disconnected event
  then moves it to Disconnected.\<close>

theorem lifecycle_transitions_counterexample:
  "state (fst (step (Tick False 0) (init ''radio://0/80/250K'' ''cf'' 0 0 False))) = Connecting
   \<and> state (fst (step (Callback CbDisconnected)
              (fst (step (Tick False 0) (init ''radio://0/80/250K'' ''cf'' 0 0 False)))))
      = Disconnected
   \<and> \<not> table_4_2 Connecting (Callback CbDisconnected) Disconnected"
  by (simp add: init_def update_body_def try_to_connect_def disconnected_def)

subsection \<open>Trim and clamp\<close>

text \<open>
  C4. When the vertical component \<^verbatim>\<open>linear.z\<close> of the stored command is a finite
  number, the setpoint that \<^verbatim>\<open>_send_setpoint\<close> sends is
  (lateral + roll trim, longitudinal + pitch trim, angular, clamp (floor vertical) 0 60000),
  where lateral is \<^verbatim>\<open>linear.y\<close>, longitudinal is \<^verbatim>\<open>linear.x\<close> and angular is
  \<^verbatim>\<open>angular.z\<close>; an incoming command with a finite vertical component, received
  outside an emergency, is stored and sent in exactly this form, and nothing more is
  sent. The source truncates the vertical component towards zero, which under the
  clamp to 0..60000 agrees with the floor. When the vertical component of an incoming
  command is not finite, \<^verbatim>\<open>int()\<close> raises (\<^verbatim>\<open>ValueError\<close> for \<^verbatim>\<open>nan\<close>,
  \<^verbatim>\<open>OverflowError\<close> for an infinity): the command is stored and no setpoint is sent.
\<close>

theorem setpoint_trim_and_clamp:
  "(linear_z (cmdVel s) = Finite v \<longrightarrow>
      send_setpoint s =
        (s, [SendSetpoint (linear_y (cmdVel s) + roll_trim s) (linear_x (cmdVel s) + pitch_trim s)
               (angular_z (cmdVel s)) (clamp \<lfloor>v\<rfloor> 0 60000)], None))
   \<and> (\<not> isEmergency s \<and> linear_z d = Finite w \<longrightarrow>
        cmdVelChanged d s =
          (s\<lparr>cmdVel := d\<rparr>,
           [SendSetpoint (linear_y d + roll_trim s) (linear_x d + pitch_trim s)
              (angular_z d) (clamp \<lfloor>w\<rfloor> 0 60000)], None))
   \<and> (\<not> isEmergency s \<and> \<not> isfinite (linear_z d) \<longrightarrow>
        cmdVelChanged d s =
          (s\<lparr>cmdVel := d\<rparr>, [],
           Some (if linear_z d = NaN then ValueError else OverflowError)))"
proof -
  have a: "linear_z (cmdVel s) = Finite v \<longrightarrow>
      send_setpoint s =
        (s, [SendSetpoint (linear_y (cmdVel s) + roll_trim s) (linear_x (cmdVel s) + pitch_trim s)
               (angular_z (cmdVel s)) (clamp \<lfloor>v\<rfloor> 0 60000)], None)"
    by (simp add: send_setpoint_finite thrust_is_clamped_floor)
  have b: "\<not> isEmergency s \<and> linear_z d = Finite w \<longrightarrow>
        cmdVelChanged d s =
          (s\<lparr>cmdVel := d\<rparr>,
           [SendSetpoint (linear_y d + roll_trim s) (linear_x d + pitch_trim s)
              (angular_z d) (clamp \<lfloor>w\<rfloor> 0 60000)], None)"
    by (simp add: cmdVelChanged_def send_setpoint_def thrust_is_clamped_floor)
  have c: "\<not> isEmergency s \<and> \<not> isfinite (linear_z d) \<longrightarrow>
        cmdVelChanged d s =
          (s\<lparr>cmdVel := d\<rparr>, [],
           Some (if linear_z d = NaN then ValueError else OverflowError))"
    by (simp add: cmdVelChanged_def send_setpoint_not_finite)
  from a b c show ?thesis by blast
qed

theorem setpoint_trim_and_clamp_witness:
  "\<not> isEmergency (init ''radio://0/80/250K'' ''cf'' 1.0 (- 0.5) False)
   \<and> cmdVelChanged
        \<lparr>linear_x = 3.0, linear_y = 2.0, linear_z = Finite 100,
         angular_x = 0, angular_y = 0, angular_z = 0.1\<rparr>
        (init ''radio://0/80/250K'' ''cf'' 1.0 (- 0.5) False)
     = ((init ''radio://0/80/250K'' ''cf'' 1.0 (- 0.5) False)
          \<lparr>cmdVel := \<lparr>linear_x = 3.0, linear_y = 2.0, linear_z = Finite 100,
                      angular_x = 0, angular_y = 0, angular_z = 0.1\<rparr>\<rparr>,
        [SendSetpoint 3.0 2.5 0.1 100], None)
   \<and> cmdVelChanged (Twist\<lparr>linear_z := PosInf\<rparr>)
        (init ''radio://0/80/250K'' ''cf'' 1.0 (- 0.5) False)
     = ((init ''radio://0/80/250K'' ''cf'' 1.0 (- 0.5) False)\<lparr>cmdVel := Twist\<lparr>linear_z := PosInf\<rparr>\<rparr>,
        [], Some OverflowError)"
  using setpoint_trim_and_clamp
    [of "init ''radio://0/80/250K'' ''cf'' 1.0 (- 0.5) False" 0
        "\<lparr>linear_x = 3.0, linear_y = 2.0, linear_z = Finite 100,
          angular_x = 0, angular_y = 0, angular_z = 0.1\<rparr>" 100]
    setpoint_trim_and_clamp
    [of "init ''radio://0/80/250K'' ''cf'' 1.0 (- 0.5) False" 0
        "Twist\<lparr>linear_z := PosInf\<rparr>" 0]
  by (simp add: init_def clamp_def)

text \<open>A command for which no setpoint is sent although the latch is not set: its
  vertical component is \<^verbatim>\<open>nan\<close>.\<close>

theorem setpoint_for_every_command_counterexample:
  "\<not> isEmergency (init ''radio://0/80/250K'' ''cf'' 1.0 (- 0.5) False)
   \<and> cmdVelChanged (Twist\<lparr>linear_z := NaN\<rparr>)
        (init ''radio://0/80/250K'' ''cf'' 1.0 (- 0.5) False)
     = ((init ''radio://0/80/250K'' ''cf'' 1.0 (- 0.5) False)\<lparr>cmdVel := Twist\<lparr>linear_z := NaN\<rparr>\<rparr>,
        [], Some ValueError)"
  by (simp add: init_def cmdVelChanged_def send_setpoint_def)

subsection \<open>Telemetry units\<close>

text \<open>
  C5. For a sample with gyroscope reading 180 and accelerometer reading 1000 on the
  x axis, the message published carries angular velocity \<open>pi\<close> and linear
  acceleration 9810: the source multiplies the reading by 9.81, whereas the conversion
  from mG that its comment asks for gives 9.81 for a reading of 1000.
\<close>

theorem imu_acceleration_not_converted_from_mG:
  "map_sum id (\<lambda>m. (angular_velocity_x m, linear_acceleration_x m))
     (log_data_imu s now
        [''gyro.x'' \<mapsto> 180, ''gyro.y'' \<mapsto> 0, ''gyro.z'' \<mapsto> 0,
         ''acc.x'' \<mapsto> 1000, ''acc.y'' \<mapsto> 0, ''acc.z'' \<mapsto> 0])
     = Inr (pi, 9810)
   \<and> mG_to_ms2 1000 = 9.81"
  by (simp add: log_data_imu_def bind_def getitem_def radians_def mG_to_ms2_def)

subsection \<open>Parameter identifiers\<close>

text \<open>
  C6. The identifier mapping swaps the delimiter in both directions. A notification
  from the device for \<open>name\<close> writes the value at the prefix of the session, a
  slash, and \<open>name\<close> with every dot replaced by a slash. A request whose entries all
  go through pushes, for every path of its list and in the order of the list, the
  identifier that is the path with every slash replaced by a dot, with the text of
  the value the store holds for that path under the prefix, and returns the response.
  The two replacements undo each other on a name without slash and on a path without
  dot, so in particular on \<open>g.n\<close> and \<open>g/n\<close> when neither segment holds a
  delimiter. The path \<^verbatim>\<open>flightmode/posSet\<close> maps to the identifier
  \<^verbatim>\<open>flightmode.posSet\<close>.
\<close>

theorem param_identifier_mapping:
  "(CHR ''/'' \<notin> set name \<longrightarrow> cf_param_of (str_replace CHR ''.'' CHR ''/'' name) = name)
   \<and> (CHR ''.'' \<notin> set path \<longrightarrow> str_replace CHR ''.'' CHR ''/'' (cf_param_of path) = path)
   \<and> (CHR ''.'' \<notin> set g \<and> CHR ''.'' \<notin> set n \<longrightarrow>
        str_replace CHR ''.'' CHR ''/'' (g @ ''.'' @ n) = g @ ''/'' @ n)
   \<and> (CHR ''/'' \<notin> set g \<and> CHR ''/'' \<notin> set n \<longrightarrow> cf_param_of (g @ ''/'' @ n) = g @ ''.'' @ n)
   \<and> param_callback s name v store =
        store(tf_prefix s @ ''/'' @ str_replace CHR ''.'' CHR ''/'' name \<mapsto> v)
   \<and> (list_all (entry_ok refused s store) ps \<longrightarrow>
        update_params refused str_of s store ps =
          (map (push_of str_of s store) ps, Inr UpdateParamsResponse))
   \<and> (store (ros_param_of s path) = Some v \<longrightarrow>
        push_of str_of s store path =
          SetValue (str_replace CHR ''/'' CHR ''.'' path) (str_of v))
   \<and> (store (ros_param_of s path) = Some v \<and> \<not> refused (cf_param_of path) \<longrightarrow>
        update_params refused str_of s store [path] =
          ([SetValue (cf_param_of path) (str_of v)], Inr UpdateParamsResponse))
   \<and> cf_param_of path = str_replace CHR ''/'' CHR ''.'' path
   \<and> cf_param_of ''flightmode/posSet'' = ''flightmode.posSet''
   \<and> ros_param_of s ''flightmode/posSet'' = ''/'' @ tf_prefix s @ ''/flightmode/posSet''"
proof -
  have inv1: "CHR ''/'' \<notin> set name \<longrightarrow> cf_param_of (str_replace CHR ''.'' CHR ''/'' name) = name"
    by (simp add: cf_param_of_def str_replace_inverse)
  have inv2: "CHR ''.'' \<notin> set path \<longrightarrow> str_replace CHR ''.'' CHR ''/'' (cf_param_of path) = path"
    by (simp add: cf_param_of_def str_replace_inverse)
  have seg1: "CHR ''.'' \<notin> set g \<and> CHR ''.'' \<notin> set n \<longrightarrow>
        str_replace CHR ''.'' CHR ''/'' (g @ ''.'' @ n) = g @ ''/'' @ n"
    by (simp add: str_replace_append str_replace_Cons str_replace_absent)
  have seg2: "CHR ''/'' \<notin> set g \<and> CHR ''/'' \<notin> set n \<longrightarrow> cf_param_of (g @ ''/'' @ n) = g @ ''.'' @ n"
    by (simp add: cf_param_of_def str_replace_append str_replace_Cons str_replace_absent)
  have cb: "param_callback s name v store =
        store(tf_prefix s @ ''/'' @ str_replace CHR ''.'' CHR ''/'' name \<mapsto> v)"
    by (simp add: param_callback_def)
  have every: "list_all (entry_ok refused s store) ps \<longrightarrow>
        update_params refused str_of s store ps =
          (map (push_of str_of s store) ps, Inr UpdateParamsResponse)"
    using update_params_all_ok [of refused s store ps str_of] by blast
  have push: "store (ros_param_of s path) = Some v \<longrightarrow>
        push_of str_of s store path =
          SetValue (str_replace CHR ''/'' CHR ''.'' path) (str_of v)"
    by (simp add: push_of_def cf_param_of_def)
  have up: "store (ros_param_of s path) = Some v \<and> \<not> refused (cf_param_of path) \<longrightarrow>
        update_params refused str_of s store [path] =
          ([SetValue (cf_param_of path) (str_of v)], Inr UpdateParamsResponse)"
    by simp
  have cf: "cf_param_of path = str_replace CHR ''/'' CHR ''.'' path"
    by (simp add: cf_param_of_def)
  have ex1: "cf_param_of ''flightmode/posSet'' = ''flightmode.posSet''"
    by (simp add: cf_param_of_def str_replace_def)
  have ex2: "ros_param_of s ''flightmode/posSet'' = ''/'' @ tf_prefix s @ ''/flightmode/posSet''"
    by (simp add: ros_param_of_def)
  from inv1 inv2 seg1 seg2 cb every push up cf ex1 ex2 show ?thesis by blast
qed

theorem param_identifier_mapping_witness:
  "list_all (entry_ok (\<lambda>name. False) (init ''radio://0/80/250K'' ''cf'' 0 0 False)
       [''/cf/flightmode/posSet'' \<mapsto> True, ''/cf/ring/effect'' \<mapsto> False])
     [''flightmode/posSet'', ''ring/effect'']
   \<and> update_params (\<lambda>name. False) (\<lambda>v. if v then ''True'' else ''False'')
     (init ''radio://0/80/250K'' ''cf'' 0 0 False)
     [''/cf/flightmode/posSet'' \<mapsto> True, ''/cf/ring/effect'' \<mapsto> False]
     [''flightmode/posSet'', ''ring/effect'']
   = ([SetValue ''flightmode.posSet'' ''True'', SetValue ''ring.effect'' ''False''],
      Inr UpdateParamsResponse)
   \<and> param_callback (init ''radio://0/80/250K'' ''cf'' 0 0 False) ''flightmode.posSet'' True Map.empty
       ''cf/flightmode/posSet'' = Some True
   \<and> cf_param_of (str_replace CHR ''.'' CHR ''/'' ''flightmode.posSet'') = ''flightmode.posSet''
   \<and> str_replace CHR ''.'' CHR ''/'' (cf_param_of ''flightmode/posSet'') = ''flightmode/posSet''"
proof -
  have ok: "list_all (entry_ok (\<lambda>name. False) (init ''radio://0/80/250K'' ''cf'' 0 0 False)
       [''/cf/flightmode/posSet'' \<mapsto> True, ''/cf/ring/effect'' \<mapsto> False])
     [''flightmode/posSet'', ''ring/effect'']"
    by (simp add: entry_ok_def ros_param_of_def init_def)
  have pushes: "map (push_of (\<lambda>v. if v then ''True'' else ''False'')
        (init ''radio://0/80/250K'' ''cf'' 0 0 False)
        [''/cf/flightmode/posSet'' \<mapsto> True, ''/cf/ring/effect'' \<mapsto> False])
      [''flightmode/posSet'', ''ring/effect'']
     = [SetValue ''flightmode.posSet'' ''True'', SetValue ''ring.effect'' ''False'']"
    by (simp add: push_of_def ros_param_of_def cf_param_of_def str_replace_def init_def)
  from param_identifier_mapping
    [of "''flightmode.posSet''" "''flightmode/posSet''" "''flightmode''" "''posSet''"
        "init ''radio://0/80/250K'' ''cf'' 0 0 False" True
        "[''/cf/flightmode/posSet'' \<mapsto> True, ''/cf/ring/effect'' \<mapsto> False]"
        "\<lambda>name. False" "[''flightmode/posSet'', ''ring/effect'']"
        "\<lambda>v. if v then ''True'' else ''False''"]
  have every: "list_all (entry_ok (\<lambda>name. False) (init ''radio://0/80/250K'' ''cf'' 0 0 False)
         [''/cf/flightmode/posSet'' \<mapsto> True, ''/cf/ring/effect'' \<mapsto> False])
       [''flightmode/posSet'', ''ring/effect''] \<longrightarrow>
     update_params (\<lambda>name. False) (\<lambda>v. if v then ''True'' else ''False'')
       (init ''radio://0/80/250K'' ''cf'' 0 0 False)
       [''/cf/flightmode/posSet'' \<mapsto> True, ''/cf/ring/effect'' \<mapsto> False]
       [''flightmode/posSet'', ''ring/effect'']
     = (map (push_of (\<lambda>v. if v then ''True'' else ''False'')
               (init ''radio://0/80/250K'' ''cf'' 0 0 False)
               [''/cf/flightmode/posSet'' \<mapsto> True, ''/cf/ring/effect'' \<mapsto> False])
            [''flightmode/posSet'', ''ring/effect''],
        Inr UpdateParamsResponse)"
    by (elim conjE)
  from every ok have run: "update_params (\<lambda>name. False) (\<lambda>v. if v then ''True'' else ''False'')
       (init ''radio://0/80/250K'' ''cf'' 0 0 False)
       [''/cf/flightmode/posSet'' \<mapsto> True, ''/cf/ring/effect'' \<mapsto> False]
       [''flightmode/posSet'', ''ring/effect'']
     = (map (push_of (\<lambda>v. if v then ''True'' else ''False'')
               (init ''radio://0/80/250K'' ''cf'' 0 0 False)
               [''/cf/flightmode/posSet'' \<mapsto> True, ''/cf/ring/effect'' \<mapsto> False])
            [''flightmode/posSet'', ''ring/effect''],
        Inr UpdateParamsResponse)"
    by (rule mp)
  have cb: "param_callback (init ''radio://0/80/250K'' ''cf'' 0 0 False) ''flightmode.posSet'' True
       Map.empty ''cf/flightmode/posSet'' = Some True"
    by (simp add: param_callback_def init_def str_replace_def)
  have i1: "cf_param_of (str_replace CHR ''.'' CHR ''/'' ''flightmode.posSet'') = ''flightmode.posSet''"
    by (simp add: cf_param_of_def str_replace_def)
  have i2: "str_replace CHR ''.'' CHR ''/'' (cf_param_of ''flightmode/posSet'') = ''flightmode/posSet''"
    by (simp add: cf_param_of_def str_replace_def)
  from ok run cb i1 i2 show ?thesis unfolding pushes by (intro conjI)
qed

subsection \<open>A failing entry of an update request\<close>

text \<open>
  C7. The entries of an "update parameters" request are pushed one by one in the
  order of the list. An entry fails when the store has no value for its path or the
  link refuses its identifier. The pushes made before the first failing entry stay
  made, and the first failing entry ends the method with its exception: no later
  entry is pushed and no response is returned. The response is returned exactly when
  no entry fails.
\<close>

theorem update_params_stops_at_first_failure:
  "fst (update_params refused str_of s store ps) =
     map (push_of str_of s store) (takeWhile (entry_ok refused s store) ps)
   \<and> (list_all (entry_ok refused s store) ps \<longrightarrow>
        snd (update_params refused str_of s store ps) = Inr UpdateParamsResponse)
   \<and> (\<not> list_all (entry_ok refused s store) ps \<longrightarrow>
        (\<exists>e. snd (update_params refused str_of s store ps) = Inl e))"
proof -
  have a: "list_all (entry_ok refused s store) ps \<longrightarrow>
        snd (update_params refused str_of s store ps) = Inr UpdateParamsResponse"
  proof
    assume "list_all (entry_ok refused s store) ps"
    then have d: "dropWhile (entry_ok refused s store) ps = []"
      by (simp add: list_all_iff)
    show "snd (update_params refused str_of s store ps) = Inr UpdateParamsResponse"
      unfolding update_params_outcome d by simp
  qed
  have b: "\<not> list_all (entry_ok refused s store) ps \<longrightarrow>
        (\<exists>e. snd (update_params refused str_of s store ps) = Inl e)"
  proof
    assume "\<not> list_all (entry_ok refused s store) ps"
    then have "dropWhile (entry_ok refused s store) ps \<noteq> []"
      by (simp add: list_all_iff dropWhile_eq_Nil_conv)
    then obtain p rest where d: "dropWhile (entry_ok refused s store) ps = p # rest"
      by (cases "dropWhile (entry_ok refused s store) ps") auto
    show "\<exists>e. snd (update_params refused str_of s store ps) = Inl e"
      unfolding update_params_outcome d by simp
  qed
  from a b update_params_takeWhile [of refused str_of s store ps] show ?thesis by blast
qed

theorem update_params_stops_at_first_failure_witness:
  "update_params (\<lambda>name. False) (\<lambda>v. if v then ''True'' else ''False'')
     (init ''radio://0/80/250K'' ''cf'' 0 0 False) [''/cf/b'' \<mapsto> True] [''b'', ''a'', ''b'']
   = ([SetValue ''b'' ''True''], Inl (KeyError ''/cf/a''))
   \<and> \<not> list_all (entry_ok (\<lambda>name. False) (init ''radio://0/80/250K'' ''cf'' 0 0 False)
          [''/cf/b'' \<mapsto> True]) [''b'', ''a'', ''b'']
   \<and> map (push_of (\<lambda>v. if v then ''True'' else ''False'')
            (init ''radio://0/80/250K'' ''cf'' 0 0 False) [''/cf/b'' \<mapsto> True])
        (takeWhile (entry_ok (\<lambda>name. False) (init ''radio://0/80/250K'' ''cf'' 0 0 False)
            [''/cf/b'' \<mapsto> True]) [''b'', ''a'', ''b''])
      = [SetValue ''b'' ''True'']"
  using update_params_stops_at_first_failure
    [of "\<lambda>name. False" "\<lambda>v. if v then ''True'' else ''False''"
        "init ''radio://0/80/250K'' ''cf'' 0 0 False" "[''/cf/b'' \<mapsto> True]" "[''b'', ''a'', ''b'']"]
  by (simp add: init_def ros_param_of_def cf_param_of_def str_replace_def entry_ok_def push_of_def)

text \<open>Independent pushes would send the entry \<^verbatim>\<open>b\<close> of the request
  \<^verbatim>\<open>[a, b]\<close> when only \<^verbatim>\<open>a\<close> lacks a value; the source sends nothing.\<close>

theorem update_params_independence_counterexample:
  "fst (update_params (\<lambda>name. False) (\<lambda>v. if v then ''True'' else ''False'')
     (init ''radio://0/80/250K'' ''cf'' 0 0 False) [''/cf/b'' \<mapsto> True] [''a'', ''b'']) = []
   \<and> spec_independent_pushes (\<lambda>name. False) (\<lambda>v. if v then ''True'' else ''False'')
     (init ''radio://0/80/250K'' ''cf'' 0 0 False) [''/cf/b'' \<mapsto> True] [''a'', ''b'']
      = [SetValue ''b'' ''True'']"
  by (simp add: init_def ros_param_of_def cf_param_of_def str_replace_def entry_ok_def push_of_def
        spec_independent_pushes_def)

subsection \<open>The watchdog's default setpoint\<close>

text \<open>
  C8. In a pass of the watchdog loop with the session Connected and no connection on
  the command subscriber, the stored command is replaced by the all-zero command and
  the setpoint sent is (roll trim, pitch trim, 0, 0), followed by a pause of 0.2 s;
  nothing is raised. When either trim is not zero, the all-zero setpoint is not sent
  in that pass.
\<close>

theorem watchdog_default_carries_trim:
  "state s = Connected \<Longrightarrow> \<not> sh \<Longrightarrow> \<not> isEmergency s \<Longrightarrow> n \<le> 0 \<Longrightarrow>
     step (Tick sh n) s =
       (s\<lparr>cmdVel := Twist\<rparr>, [SendSetpoint (roll_trim s) (pitch_trim s) 0 0, Sleep 0.2], None)
     \<and> (roll_trim s \<noteq> 0 \<or> pitch_trim s \<noteq> 0 \<longrightarrow>
          SendSetpoint 0 0 0 0 \<notin> set (fst (snd (step (Tick sh n) s))))"
  by (auto simp add: update_body_def send_setpoint_def seq_def sleep_def Twist_def trunc_def Let_def)

theorem watchdog_default_carries_trim_witness:
  "state (fst (connected (init ''radio://0/80/250K'' ''cf'' 1.0 (- 0.5) False))) = Connected
   \<and> snd (step (Tick False 0) (fst (connected (init ''radio://0/80/250K'' ''cf'' 1.0 (- 0.5) False))))
      = ([SendSetpoint 1.0 (- 0.5) 0 0, Sleep 0.2], None)
   \<and> SendSetpoint 0 0 0 0 \<notin>
        set (fst (snd (step (Tick False 0)
          (fst (connected (init ''radio://0/80/250K'' ''cf'' 1.0 (- 0.5) False))))))"
  using watchdog_default_carries_trim
    [of "fst (connected (init ''radio://0/80/250K'' ''cf'' 1.0 (- 0.5) False))" False 0]
  by (simp add: connected_def init_def)

subsection \<open>Unchecked reads of the parameter store\<close>

text \<open>
  C9. \<^verbatim>\<open>_update_params\<close> reads the store for every path without asking whether the
  path has a value. A request that holds a path without a value does not return the
  response but ends with an exception; when the entries before that path go through,
  they are pushed and the exception is the \<^verbatim>\<open>KeyError\<close> of the read of that path.
  Every value pushed is the text \<^verbatim>\<open>str\<close> gives for a value of the store.
\<close>

theorem update_params_reads_unconditionally:
  "(p \<in> set ps \<and> store (ros_param_of s p) = None \<longrightarrow>
      (\<exists>e. snd (update_params refused str_of s store ps) = Inl e))
   \<and> (list_all (entry_ok refused s store) pre \<and> store (ros_param_of s p) = None \<longrightarrow>
        update_params refused str_of s store (pre @ p # post) =
          (map (push_of str_of s store) pre, Inl (KeyError (ros_param_of s p))))
   \<and> (\<forall>a \<in> set (fst (update_params refused str_of s store ps)).
        \<exists>q v. a = SetValue (cf_param_of q) (str_of v) \<and> q \<in> set ps
             \<and> store (ros_param_of s q) = Some v)"
  using update_params_missing_raises [of p ps store s refused str_of]
    update_params_append_missing [of refused s store pre p str_of post]
    update_params_pushes_stringified [of _ refused str_of s store ps]
  by blast

theorem update_params_reads_unconditionally_witness:
  "''a'' \<in> set [''b'', ''a'']
   \<and> [''/cf/b'' \<mapsto> True] (ros_param_of (init ''radio://0/80/250K'' ''cf'' 0 0 False) ''a'') = None
   \<and> update_params (\<lambda>name. False) (\<lambda>v. if v then ''True'' else ''False'')
       (init ''radio://0/80/250K'' ''cf'' 0 0 False) [''/cf/b'' \<mapsto> True] ([''b''] @ ''a'' # [])
     = ([SetValue ''b'' ''True''], Inl (KeyError ''/cf/a''))"
  using update_params_reads_unconditionally
    [of "''a''" "[''b'', ''a'']" "[''/cf/b'' \<mapsto> True]"
        "init ''radio://0/80/250K'' ''cf'' 0 0 False" "\<lambda>name. False"
        "\<lambda>v. if v then ''True'' else ''False''" "[''b'']" "[]"]
  by (simp add: init_def ros_param_of_def cf_param_of_def str_replace_def entry_ok_def push_of_def)

subsection \<open>The shutdown sequence and the trims\<close>

text \<open>
  C10. An exit of the watchdog loop sends the literal setpoint (0, 0, 0, 0): every
  setpoint of the shutdown sequence has all four components zero, whatever the trims
  and the stored command of the session. A send through \<^verbatim>\<open>_send_setpoint\<close> adds the
  trims to the stored command and clamps its thrust (or sends nothing, when the
  vertical component is not finite), so what it sends is none of the setpoints of the
  shutdown sequence unless the trims cancel the stored command.
\<close>

theorem shutdown_bypasses_trim:
  "(sh \<or> isEmergency s \<longrightarrow>
      step (Tick sh n) s =
        (s, concat (replicate 100 [SendSetpoint 0 0 0 0, Sleep 0.01]) @ [Sleep 0.1, CloseLink],
         None))
   \<and> (\<forall>r p y t. SendSetpoint r p y t \<in> set shutdown_sequence \<longrightarrow>
         r = 0 \<and> p = 0 \<and> y = 0 \<and> t = 0)
   \<and> (linear_z (cmdVel s) = Finite v \<longrightarrow>
        send_setpoint s =
          (s, [SendSetpoint (linear_y (cmdVel s) + roll_trim s)
                 (linear_x (cmdVel s) + pitch_trim s)
                 (angular_z (cmdVel s)) (min (max 0 (trunc v)) 60000)], None))
   \<and> (\<not> isfinite (linear_z (cmdVel s)) \<longrightarrow> fst (snd (send_setpoint s)) = [])
   \<and> (roll_trim s \<noteq> - linear_y (cmdVel s) \<or> pitch_trim s \<noteq> - linear_x (cmdVel s) \<longrightarrow>
         (\<forall>a \<in> set (fst (snd (send_setpoint s))). a \<notin> set shutdown_sequence))"
proof -
  have a: "sh \<or> isEmergency s \<longrightarrow>
      step (Tick sh n) s =
        (s, concat (replicate 100 [SendSetpoint 0 0 0 0, Sleep 0.01]) @ [Sleep 0.1, CloseLink],
         None)"
    by (simp add: shutdown_sequence_explicit)
  have b: "\<forall>r p y t. SendSetpoint r p y t \<in> set shutdown_sequence \<longrightarrow>
         r = 0 \<and> p = 0 \<and> y = 0 \<and> t = 0"
    by (auto simp add: shutdown_sequence_explicit)
  have c: "linear_z (cmdVel s) = Finite v \<longrightarrow>
        send_setpoint s =
          (s, [SendSetpoint (linear_y (cmdVel s) + roll_trim s)
                 (linear_x (cmdVel s) + pitch_trim s)
                 (angular_z (cmdVel s)) (min (max 0 (trunc v)) 60000)], None)"
    by (simp add: send_setpoint_finite)
  have d: "\<not> isfinite (linear_z (cmdVel s)) \<longrightarrow> fst (snd (send_setpoint s)) = []"
    by (simp add: send_setpoint_not_finite)
  have e: "roll_trim s \<noteq> - linear_y (cmdVel s) \<or> pitch_trim s \<noteq> - linear_x (cmdVel s) \<longrightarrow>
         (\<forall>a \<in> set (fst (snd (send_setpoint s))). a \<notin> set shutdown_sequence)"
    by (cases "linear_z (cmdVel s)")
       (auto simp add: send_setpoint_def shutdown_sequence_explicit)
  from a b c d e show ?thesis by blast
qed

theorem shutdown_bypasses_trim_witness:
  "isEmergency ((init ''radio://0/80/250K'' ''cf'' 1.0 (- 0.5) False)
       \<lparr>cmdVel := Twist\<lparr>linear_z := Finite 30000\<rparr>, isEmergency := True\<rparr>)
   \<and> snd (step (Tick False 1) ((init ''radio://0/80/250K'' ''cf'' 1.0 (- 0.5) False)
       \<lparr>cmdVel := Twist\<lparr>linear_z := Finite 30000\<rparr>, isEmergency := True\<rparr>))
      = (concat (replicate 100 [SendSetpoint 0 0 0 0, Sleep 0.01]) @ [Sleep 0.1, CloseLink], None)
   \<and> fst (snd (send_setpoint ((init ''radio://0/80/250K'' ''cf'' 1.0 (- 0.5) False)
       \<lparr>cmdVel := Twist\<lparr>linear_z := Finite 30000\<rparr>, isEmergency := True\<rparr>)))
      = [SendSetpoint 1.0 (- 0.5) 0 30000]"
  using shutdown_bypasses_trim
    [of False "(init ''radio://0/80/250K'' ''cf'' 1.0 (- 0.5) False)
       \<lparr>cmdVel := Twist\<lparr>linear_z := Finite 30000\<rparr>, isEmergency := True\<rparr>" 1 30000]
  by (simp add: init_def Twist_def trunc_def)

end
